theory Spec2Isabelle
  imports Complex_Main
begin

section \<open>Python values and errors\<close>

text \<open>
  The functions of \<^verbatim>\<open>utilities/sim_lib.py\<close> are duck-typed: each one first looks at the
  run-time type of its arguments. The values a caller can pass are modelled by a datatype.
  A Python \<^verbatim>\<open>float\<close> is a finite value, an infinity or a NaN; the finite values are
  modelled as real numbers and all arithmetic on scores is exact (rounding is not modelled).
  A character is a code point below 256.
\<close>

datatype pyfloat = Fin real | PInf | NInf | NaN

datatype pynum = NBool bool | NInt int | NFloat pyfloat

datatype pyval = PNone | PNum pynum | PStr string | PList "pyval list"

datatype pyerror = TypeError | ValueError | OverflowError | IndexError

section \<open>Characters and strings\<close>

definition code :: "char \<Rightarrow> nat" where
  "code c = of_char c"

text \<open>\<^verbatim>\<open>str.lower()\<close> on code points below 256.\<close>

definition lower_char :: "char \<Rightarrow> char" where
  "lower_char c =
     (let k = code c
      in if (65 \<le> k \<and> k \<le> 90) \<or> (192 \<le> k \<and> k \<le> 222 \<and> k \<noteq> 215)
         then char_of (k + 32) else c)"

definition lower :: "string \<Rightarrow> string" where
  "lower s = map lower_char s"

text \<open>The character class \<^verbatim>\<open>[a-zA-Z0-9]\<close>.\<close>

definition is_alnum :: "char \<Rightarrow> bool" where
  "is_alnum c =
     (let k = code c
      in (97 \<le> k \<and> k \<le> 122) \<or> (65 \<le> k \<and> k \<le> 90) \<or> (48 \<le> k \<and> k \<le> 57))"

text \<open>The class \<^verbatim>\<open>\s\<close> of a Unicode pattern, which is also what \<^verbatim>\<open>str.split()\<close> splits on.\<close>

definition is_space :: "char \<Rightarrow> bool" where
  "is_space c =
     (let k = code c
      in (9 \<le> k \<and> k \<le> 13) \<or> (28 \<le> k \<and> k \<le> 32) \<or> k = 133 \<or> k = 160)"

text \<open>The class \<^verbatim>\<open>\w\<close> of a Unicode pattern: alphanumeric characters and the underscore.\<close>

definition is_word :: "char \<Rightarrow> bool" where
  "is_word c =
     (let k = code c
      in is_alnum c \<or> k = 95 \<or> k = 170 \<or> k = 178 \<or> k = 179 \<or> k = 181 \<or> k = 185 \<or> k = 186
         \<or> (188 \<le> k \<and> k \<le> 190) \<or> (192 \<le> k \<and> k \<le> 214) \<or> (216 \<le> k \<and> k \<le> 246)
         \<or> (248 \<le> k \<and> k \<le> 255))"

text \<open>
  \<^verbatim>\<open>re.sub(r"[^a-zA-Z0-9]+", " ", s)\<close>: every maximal run of characters outside the class
  becomes one space. The flag says whether the previous character belonged to such a run.
\<close>

fun sub_run :: "bool \<Rightarrow> string \<Rightarrow> string" where
  "sub_run in_run [] = []"
| "sub_run in_run (c # cs) =
     (if is_alnum c then c # sub_run False cs
      else if in_run then sub_run True cs
      else CHR '' '' # sub_run True cs)"

definition sub_nonalnum :: "string \<Rightarrow> string" where
  "sub_nonalnum s = sub_run False s"

text \<open>\<^verbatim>\<open>re.sub(r"[^\w\s]", " ", s)\<close>: one space for each character outside both classes.\<close>

definition sub_punct :: "string \<Rightarrow> string" where
  "sub_punct s = map (\<lambda>c. if is_word c \<or> is_space c then c else CHR '' '') s"

definition strip :: "string \<Rightarrow> string" where
  "strip s = rev (dropWhile is_space (rev (dropWhile is_space s)))"

text \<open>
  \<^verbatim>\<open>str.split()\<close> without arguments: the maximal runs of characters that are not white
  space. The first argument is the token read so far.
\<close>

fun split_acc :: "string \<Rightarrow> string \<Rightarrow> string list" where
  "split_acc cur [] = (if cur = [] then [] else [cur])"
| "split_acc cur (c # cs) =
     (if is_space c then (if cur = [] then split_acc [] cs else cur # split_acc [] cs)
      else split_acc (cur @ [c]) cs)"

definition split :: "string \<Rightarrow> string list" where
  "split s = split_acc [] s"

section \<open>Similarity between titles\<close>

definition IT_STOP :: "string set" where
  "IT_STOP = set [
    ''a'', ''ad'', ''al'', ''allo'', ''ai'', ''agli'', ''all'', ''agl'', ''alla'', ''alle'',
    ''col'', ''coi'', ''con'', ''della'', ''delle'', ''dei'', ''del'', ''dello'', ''degli'', ''di'',
    ''da'', ''dal'', ''dallo'', ''dai'', ''dagli'', ''dalla'', ''dalle'',
    ''in'', ''nel'', ''nello'', ''nella'', ''nei'', ''negli'', ''nelle'', ''sul'', ''sullo'',
    ''sulla'', ''sui'', ''sugli'', ''sulle'',
    ''tra'', ''fra'', ''su'', ''sopra'', ''sotto'', ''oltre'', ''contro'', ''verso'', ''entro'',
    ''il'', ''lo'', ''la'', ''i'', ''gli'', ''le'', ''un'', ''uno'', ''una'', ''l'',
    ''e'', ''ed'', ''o'', ''oppure'', ''ma'', ''per'' @ [CHR 0xF2], ''anche'', ''ne'',
    ''n'' @ [CHR 0xE9], ''che'', ''cui'', ''come'', ''dove'', ''quando'',
    ''mentre'', ''se'', ''allora'', ''quindi'', ''dunque'', ''poich'' @ [CHR 0xE9],
    ''perch'' @ [CHR 0xE9],
    ''non'', ''pi'' @ [CHR 0xF9], ''meno'', ''mai'', ''gi'' @ [CHR 0xE0], ''ancora'', ''sempre'',
    ''ora'', ''adesso'', ''poi'', ''cos'' @ [CHR 0xEC], ''solo'',
    ''quasi'', ''molto'', ''troppo'', ''poco'', ''niente'', ''nulla'', ''tutto'', ''ogni'',
    ''ognuno'',
    ''questo'', ''questa'', ''questi'', ''queste'', ''quello'', ''quella'', ''quelli'', ''quelle'',
    ''ci'', ''vi'', ''mi'', ''ti'', ''si'',
    ''a'', ''an'', ''the'', ''and'', ''or'', ''but'', ''if'', ''then'', ''so'', ''because'', ''as'',
    ''while'', ''until'', ''of'', ''at'', ''by'',
    ''for'', ''with'', ''about'', ''against'', ''between'', ''into'', ''through'', ''during'',
    ''before'', ''after'', ''above'', ''below'',
    ''to'', ''from'', ''up'', ''down'', ''in'', ''out'', ''on'', ''off'', ''over'', ''under'',
    ''again'', ''further'', ''once'', ''here'', ''there'', ''when'', ''where'', ''why'', ''how'',
    ''all'', ''any'', ''both'', ''each'', ''few'',
    ''more'', ''most'', ''other'', ''some'', ''such'', ''no'', ''nor'', ''not'', ''only'', ''own'',
    ''same'', ''than'', ''too'', ''very'', ''can'',
    ''will'', ''just'', ''don'', ''should'', ''now'', ''is'', ''are'', ''was'', ''were'', ''be'',
    ''been'', ''being'', ''have'', ''has'', ''had'',
    ''do'', ''does'', ''did'', ''having'', ''i'', ''you'', ''he'', ''she'', ''it'', ''we'', ''they'',
    ''me'', ''him'', ''her'', ''them'', ''my'', ''your'',
    ''yours'', ''his'', ''their'', ''its'', ''our'', ''ours'', ''theirs'', ''this'', ''that'',
    ''these'', ''those'']"

definition tokens_fast :: "pyval \<Rightarrow> string set" where
  "tokens_fast v =
     (case v of
        PStr s \<Rightarrow>
          set (filter (\<lambda>t. length t > 1 \<and> t \<notin> IT_STOP) (split (strip (sub_nonalnum (lower s)))))
      | _ \<Rightarrow> {})"

fun is_str :: "pyval \<Rightarrow> bool" where
  "is_str (PStr s) = True"
| "is_str v = False"

definition similarity_titles :: "pyval \<Rightarrow> pyval \<Rightarrow> real" where
  "similarity_titles s1 s2 =
     (if \<not> is_str s1 \<or> \<not> is_str s2 then 0
      else
        let t1 = tokens_fast s1; t2 = tokens_fast s2
        in if t1 = {} \<and> t2 = {} then 1
           else
             let inter = card (t1 \<inter> t2); union = card (t1 \<union> t2)
             in if union \<noteq> 0 then real inter / real union else 0)"

section \<open>Similarity between authors\<close>

definition STOPWORDS :: "string set" where
  "STOPWORDS = set [
    ''dr'', ''dott'', ''dottor'', ''dottore'', ''dottssa'', ''dott.ssa'', ''dott.sso'', ''dott.sse'',
    ''prof'', ''professor'', ''professore'', ''profssa'', ''prof.ssa'',
    ''ing'', ''arch'', ''geom'', ''rag'', ''avv'', ''notaio'', ''on'', ''onorevole'', ''pres'',
    ''presidente'',
    ''min'', ''ministro'', ''sen'', ''senatore'', ''mons'', ''monsignor'', ''monsignore'',
    ''rev'', ''reverendo'', ''don'', ''fra'', ''padre'', ''suor'', ''sig'', ''sigra'', ''sig.ra'',
    ''signor'',
    ''signore'', ''signora'', ''signorina'',
    ''mr'', ''mrs'', ''ms'', ''miss'', ''sir'', ''lady'', ''lord'', ''madam'', ''madame'',
    ''reverend'', ''drs'', ''doctor'', ''phd'', ''md'', ''lt'', ''sgt'', ''col'', ''gen'', ''cap'',
    ''mag'',
    ''capt'', ''ltcol'', ''ltgen'', ''maj'', ''cpt'', ''colonnello'', ''generale'', ''capitano'',
    ''maggiore'']"

definition normalize_author :: "pyval \<Rightarrow> string list" where
  "normalize_author v =
     (case v of
        PStr name \<Rightarrow> filter (\<lambda>t. t \<noteq> [] \<and> t \<notin> STOPWORDS) (split (sub_punct (lower name)))
      | _ \<Rightarrow> [])"

text \<open>
  \<^verbatim>\<open>initials\<close> is only called on the token lists that \<^verbatim>\<open>normalize_author\<close> returns, so
  its argument is a list of strings here.
\<close>

definition initials :: "string list \<Rightarrow> char list" where
  "initials tokens = map hd (filter (\<lambda>t. t \<noteq> []) tokens)"

text \<open>
  \<^verbatim>\<open>ta[0][0]\<close> raises \<^verbatim>\<open>IndexError\<close> on an empty first token; \<^verbatim>\<open>ta[-1]\<close> and
  \<^verbatim>\<open>ta[0]\<close> are read only after both lists were found non-empty. The two copies of the
  function in the file are identical; this is both.
\<close>

definition author_similarity :: "pyval \<Rightarrow> pyval \<Rightarrow> pyerror + real" where
  "author_similarity a b =
     (let ta = normalize_author a; tb = normalize_author b
      in if ta = [] \<or> tb = [] then Inr 0
         else if ta = tb then Inr 1
         else
           let inter = card (set ta \<inter> set tb);
               union = card (set ta \<union> set tb);
               base0 = (if union \<noteq> 0 then real inter / real union else 0);
               ia = initials ta;
               ib = initials tb;
               base1 = (if ia = ib \<and> ia \<noteq> [] then max base0 (6 / 10) else base0)
           in if last ta = last tb
              then (if hd ta = [] \<or> hd tb = [] then Inl IndexError
                    else if hd (hd ta) = hd (hd tb) then Inr (max base1 (8 / 10))
                    else Inr (max base1 (7 / 10)))
              else Inr base1)"

text \<open>A comprehension whose elements may raise: the first error wins.\<close>

fun collect :: "('e + 'a) list \<Rightarrow> 'e + 'a list" where
  "collect [] = Inr []"
| "collect (x # xs) =
     (case x of
        Inl e \<Rightarrow> Inl e
      | Inr v \<Rightarrow> (case collect xs of Inl e \<Rightarrow> Inl e | Inr vs \<Rightarrow> Inr (v # vs)))"

definition sim_matrix :: "pyval list \<Rightarrow> pyval list \<Rightarrow> pyerror + real list list" where
  "sim_matrix lst1 lst2 = collect (map (\<lambda>a. collect (map (\<lambda>b. author_similarity a b) lst2)) lst1)"

text \<open>The inner loop of the greedy matching: the best column of a row that is not used yet.\<close>

definition best_in_row :: "nat set \<Rightarrow> real list \<Rightarrow> real \<times> nat option" where
  "best_in_row used_b row =
     fold (\<lambda>(j, val) (best, best_idx).
             if j \<notin> used_b \<and> val > best then (val, Some j) else (best, best_idx))
          (enumerate 0 row) (- 1, None)"

definition greedy_step :: "real list \<Rightarrow> nat set \<times> real \<Rightarrow> nat set \<times> real" where
  "greedy_step row = (\<lambda>(used_b, total).
     case best_in_row used_b row of
       (best, Some best_idx) \<Rightarrow> (insert best_idx used_b, total + best)
     | (best, None) \<Rightarrow> (used_b, total))"

definition greedy_total :: "real list list \<Rightarrow> real" where
  "greedy_total sim = snd (fold greedy_step sim ({}, 0))"

definition similarity_authors :: "pyval \<Rightarrow> pyval \<Rightarrow> pyerror + real" where
  "similarity_authors lst1 lst2 =
     (case (lst1, lst2) of
        (PList l1, PList l2) \<Rightarrow>
          if l1 = [] \<and> l2 = [] then Inr 1
          else if l1 = [] \<or> l2 = [] then Inr 0
          else (case sim_matrix l1 l2 of
                  Inl e \<Rightarrow> Inl e
                | Inr sim \<Rightarrow> Inr (greedy_total sim / real (max (length l1) (length l2))))
      | _ \<Rightarrow> Inr 0)"

section \<open>Similarity between publication years\<close>

text \<open>\<^verbatim>\<open>int(x)\<close> on an \<^verbatim>\<open>int\<close>, a \<^verbatim>\<open>bool\<close> or a \<^verbatim>\<open>float\<close>: a float is truncated towards zero,
  NaN raises \<^verbatim>\<open>ValueError\<close> and an infinity raises \<^verbatim>\<open>OverflowError\<close>.\<close>

fun py_int :: "pynum \<Rightarrow> pyerror + int" where
  "py_int (NInt i) = Inr i"
| "py_int (NBool b) = Inr (if b then 1 else 0)"
| "py_int (NFloat (Fin r)) = Inr (if 0 \<le> r then \<lfloor>r\<rfloor> else \<lceil>r\<rceil>)"
| "py_int (NFloat NaN) = Inl ValueError"
| "py_int (NFloat PInf) = Inl OverflowError"
| "py_int (NFloat NInf) = Inl OverflowError"

text \<open>The step function on the difference of two integer years. The source has no
  \<^verbatim>\<open>return\<close> after the last test, so falling through returns \<^verbatim>\<open>None\<close>.\<close>

definition year_steps :: "int \<Rightarrow> int \<Rightarrow> real option" where
  "year_steps year1 year2 =
     (let years_dif = \<bar>year1 - year2\<bar>
      in if years_dif = 0 then Some 1
         else if years_dif > 0 \<and> years_dif \<le> 5 then Some (7 / 10)
         else if years_dif > 5 \<and> years_dif \<le> 10 then Some (5 / 10)
         else if years_dif > 10 \<and> years_dif \<le> 20 then Some (3 / 10)
         else if years_dif > 20 \<and> years_dif \<le> 50 then Some (2 / 10)
         else if years_dif > 50 \<and> years_dif \<le> 100 then Some (1 / 10)
         else if years_dif > 100 then Some (5 / 100)
         else None)"

text \<open>The handler \<^verbatim>\<open>except (ValueError, TypeError)\<close>: other errors propagate.\<close>

definition caught :: "pyerror \<Rightarrow> bool" where
  "caught e = (e = ValueError \<or> e = TypeError)"

definition similarity_years :: "pyval \<Rightarrow> pyval \<Rightarrow> pyerror + real option" where
  "similarity_years year1 year2 =
     (case (year1, year2) of
        (PNum x1, PNum x2) \<Rightarrow>
          (case py_int x1 of
             Inl e \<Rightarrow> if caught e then Inr (Some 0) else Inl e
           | Inr i1 \<Rightarrow>
               (case py_int x2 of
                  Inl e \<Rightarrow> if caught e then Inr (Some 0) else Inl e
                | Inr i2 \<Rightarrow> Inr (year_steps i1 i2)))
      | _ \<Rightarrow> Inr (Some 0))"

section \<open>Minimum-cost assignment on a square matrix\<close>

text \<open>
  The matrices of \<^verbatim>\<open>hungarian_min_cost\<close> are lists of rows. \<^verbatim>\<open>M[i][j] = v\<close> is
  \<open>upd2 M i j v\<close>; the nested loops \<^verbatim>\<open>for i in range(N): for j in range(N)\<close> visit the
  cells row by row.
\<close>

definition upd2 :: "'a list list \<Rightarrow> nat \<Rightarrow> nat \<Rightarrow> 'a \<Rightarrow> 'a list list" where
  "upd2 M i j v = M[i := (M ! i)[j := v]]"

definition for_cells :: "nat \<Rightarrow> (nat \<Rightarrow> nat \<Rightarrow> 's \<Rightarrow> 's) \<Rightarrow> 's \<Rightarrow> 's" where
  "for_cells N body s = fold (\<lambda>i. fold (\<lambda>j. body i j) [0..<N]) [0..<N] s"

definition row_reduce :: "nat \<Rightarrow> real list list \<Rightarrow> real list list" where
  "row_reduce N C0 =
     fold (\<lambda>i C. let m = Min (set (C ! i))
                 in fold (\<lambda>j C. upd2 C i j (C ! i ! j - m)) [0..<N] C)
          [0..<N] C0"

definition col_reduce :: "nat \<Rightarrow> real list list \<Rightarrow> real list list" where
  "col_reduce N C0 =
     fold (\<lambda>j C. let m = Min (set (map (\<lambda>i. C ! i ! j) [0..<N]))
                 in fold (\<lambda>i C. upd2 C i j (C ! i ! j - m)) [0..<N] C)
          [0..<N] C0"

text \<open>Mask values: 0 unmarked, 1 starred, 2 primed.\<close>

definition star_init :: "nat \<Rightarrow> real list list \<Rightarrow> nat list list" where
  "star_init N C =
     fst (for_cells N
            (\<lambda>i j (msk, row_cover, col_cover).
               if C ! i ! j = 0 \<and> \<not> row_cover ! i \<and> \<not> col_cover ! j
               then (upd2 msk i j 1, row_cover[i := True], col_cover[j := True])
               else (msk, row_cover, col_cover))
            (replicate N (replicate N 0), replicate N False, replicate N False))"

definition cover_star_columns :: "nat \<Rightarrow> nat list list \<Rightarrow> bool list \<Rightarrow> bool list" where
  "cover_star_columns N msk col_cover =
     for_cells N (\<lambda>i j cc. if msk ! i ! j = 1 then cc[j := True] else cc) col_cover"

text \<open>\<^verbatim>\<open>sum(col_cover)\<close>: the number of \<^verbatim>\<open>True\<close> entries.\<close>

definition sum_bool :: "bool list \<Rightarrow> nat" where
  "sum_bool bs = length (filter (\<lambda>b. b) bs)"

definition find_a_zero :: "nat \<Rightarrow> real list list \<Rightarrow> bool list \<Rightarrow> bool list \<Rightarrow> (nat \<times> nat) option" where
  "find_a_zero N C row_cover col_cover =
     find (\<lambda>(i, j). \<not> row_cover ! i \<and> \<not> col_cover ! j \<and> C ! i ! j = 0)
          (List.product [0..<N] [0..<N])"

definition find_star_in_row :: "nat \<Rightarrow> nat list list \<Rightarrow> nat \<Rightarrow> nat option" where
  "find_star_in_row N msk r = find (\<lambda>j. msk ! r ! j = 1) [0..<N]"

definition find_star_in_col :: "nat \<Rightarrow> nat list list \<Rightarrow> nat \<Rightarrow> nat option" where
  "find_star_in_col N msk c = find (\<lambda>i. msk ! i ! c = 1) [0..<N]"

definition find_prime_in_row :: "nat \<Rightarrow> nat list list \<Rightarrow> nat \<Rightarrow> nat option" where
  "find_prime_in_row N msk r = find (\<lambda>j. msk ! r ! j = 2) [0..<N]"

definition augment_path :: "nat list list \<Rightarrow> (nat \<times> nat) list \<Rightarrow> nat list list" where
  "augment_path msk path =
     fold (\<lambda>(r, c) msk.
             if msk ! r ! c = 1 then upd2 msk r c 0
             else if msk ! r ! c = 2 then upd2 msk r c 1
             else msk)
          path msk"

definition clear_primes :: "nat \<Rightarrow> nat list list \<Rightarrow> nat list list" where
  "clear_primes N msk =
     for_cells N (\<lambda>i j msk. if msk ! i ! j = 2 then upd2 msk i j 0 else msk) msk"

text \<open>The running minimum starts at \<^verbatim>\<open>math.inf\<close>, which is \<open>None\<close> here.\<close>

definition smallest_uncovered :: "nat \<Rightarrow> real list list \<Rightarrow> bool list \<Rightarrow> bool list \<Rightarrow> real" where
  "smallest_uncovered N C row_cover col_cover =
     (case for_cells N
             (\<lambda>i j m.
                if \<not> row_cover ! i \<and> \<not> col_cover ! j
                   \<and> (case m of None \<Rightarrow> True | Some v \<Rightarrow> C ! i ! j < v)
                then Some (C ! i ! j) else m)
             None of
        None \<Rightarrow> 0
      | Some v \<Rightarrow> v)"

definition adjust :: "nat \<Rightarrow> real \<Rightarrow> real list list \<Rightarrow> bool list \<Rightarrow> bool list \<Rightarrow> real list list" where
  "adjust N m C0 row_cover col_cover =
     for_cells N
       (\<lambda>i j C.
          let C1 = (if row_cover ! i then upd2 C i j (C ! i ! j + m) else C)
          in if \<not> col_cover ! j then upd2 C1 i j (C1 ! i ! j - m) else C1)
       C0"

record hstate =
  st_C :: "real list list"
  st_mask :: "nat list list"
  st_row_cover :: "bool list"
  st_col_cover :: "bool list"
  st_count :: nat

text \<open>
  The inner loop \<^verbatim>\<open>while z_r is None\<close>: adjust the matrix until an uncovered zero exists.
  A loop that does not end has the value \<open>None\<close>.
\<close>

partial_function (option) find_zero_loop :: "nat \<Rightarrow> hstate \<Rightarrow> (hstate \<times> nat \<times> nat) option" where
  "find_zero_loop N s =
     (case find_a_zero N (st_C s) (st_row_cover s) (st_col_cover s) of
        Some (z_r, z_c) \<Rightarrow> Some (s, z_r, z_c)
      | None \<Rightarrow>
          find_zero_loop N
            (s\<lparr>st_C := adjust N (smallest_uncovered N (st_C s) (st_row_cover s) (st_col_cover s))
                            (st_C s) (st_row_cover s) (st_col_cover s)\<rparr>))"

declare find_zero_loop.simps [code]

text \<open>
  The loop that builds the augmenting path. When a starred row has no primed cell,
  \<^verbatim>\<open>find_prime_in_row\<close> returns \<^verbatim>\<open>None\<close> and the next \<^verbatim>\<open>mask[i][None]\<close> raises
  \<^verbatim>\<open>TypeError\<close>.
\<close>

partial_function (option) build_path ::
  "nat \<Rightarrow> nat list list \<Rightarrow> (nat \<times> nat) list \<Rightarrow> nat \<Rightarrow> (pyerror + (nat \<times> nat) list) option" where
  "build_path N msk path z_c =
     (case find_star_in_col N msk z_c of
        None \<Rightarrow> Some (Inr path)
      | Some star_row \<Rightarrow>
          (case find_prime_in_row N msk star_row of
             None \<Rightarrow> Some (Inl TypeError)
           | Some prime_col \<Rightarrow>
               build_path N msk (path @ [(star_row, z_c), (star_row, prime_col)]) prime_col))"

declare build_path.simps [code]

text \<open>One iteration of the main loop \<^verbatim>\<open>while count < N\<close>.\<close>

definition step :: "nat \<Rightarrow> hstate \<Rightarrow> (pyerror + hstate) option" where
  "step N s =
     (case find_zero_loop N s of
        None \<Rightarrow> None
      | Some (s1, z_r, z_c) \<Rightarrow>
          let mask1 = upd2 (st_mask s1) z_r z_c 2
          in (case find_star_in_row N mask1 z_r of
                Some star_col \<Rightarrow>
                  Some (Inr (s1\<lparr>st_mask := mask1,
                                 st_row_cover := (st_row_cover s1)[z_r := True],
                                 st_col_cover := (st_col_cover s1)[star_col := False]\<rparr>))
              | None \<Rightarrow>
                  (case build_path N mask1 [(z_r, z_c)] z_c of
                     None \<Rightarrow> None
                   | Some (Inl e) \<Rightarrow> Some (Inl e)
                   | Some (Inr path) \<Rightarrow>
                       let mask2 = clear_primes N (augment_path mask1 path);
                           cc = cover_star_columns N mask2 (replicate N False)
                       in Some (Inr (s1\<lparr>st_mask := mask2,
                                         st_row_cover := replicate N False,
                                         st_col_cover := cc,
                                         st_count := sum_bool cc\<rparr>)))))"

partial_function (option) main_loop :: "nat \<Rightarrow> hstate \<Rightarrow> (pyerror + hstate) option" where
  "main_loop N s =
     (if st_count s < N
      then (case step N s of
              None \<Rightarrow> None
            | Some (Inl e) \<Rightarrow> Some (Inl e)
            | Some (Inr s') \<Rightarrow> main_loop N s')
      else Some (Inr s))"

declare main_loop.simps [code]

text \<open>The state before the main loop: reduced matrix, initial stars, covered star columns.\<close>

definition init_state :: "nat \<Rightarrow> real list list \<Rightarrow> hstate" where
  "init_state N cost =
     (let C = col_reduce N (row_reduce N cost);
          mask0 = star_init N C;
          cc = cover_star_columns N mask0 (replicate N False)
      in \<lparr>st_C = C, st_mask = mask0, st_row_cover = replicate N False,
          st_col_cover = cc, st_count = sum_bool cc\<rparr>)"

text \<open>The final loop: the first starred cell of each row, in row order.\<close>

definition extract_assignment :: "nat \<Rightarrow> nat list list \<Rightarrow> (nat \<times> nat) list" where
  "extract_assignment N msk =
     concat (map (\<lambda>i. case find_star_in_row N msk i of None \<Rightarrow> [] | Some j \<Rightarrow> [(i, j)]) [0..<N])"

text \<open>
  A row shorter than \<open>N\<close> stops the row reduction: \<^verbatim>\<open>min\<close> of an empty row raises
  \<^verbatim>\<open>ValueError\<close>, and \<^verbatim>\<open>C[i][j]\<close> past the end of a row raises \<^verbatim>\<open>IndexError\<close>.
\<close>

definition hungarian_min_cost :: "real list list \<Rightarrow> (pyerror + (nat \<times> nat) list) option" where
  "hungarian_min_cost cost =
     (let N = length cost
      in case find (\<lambda>row. length row < N) cost of
           Some row \<Rightarrow> Some (Inl (if row = [] then ValueError else IndexError))
         | None \<Rightarrow>
             (case main_loop N (init_state N cost) of
                None \<Rightarrow> None
              | Some (Inl e) \<Rightarrow> Some (Inl e)
              | Some (Inr s) \<Rightarrow> Some (Inr (extract_assignment N (st_mask s)))))"

section \<open>Similarity between author lists by optimal assignment\<close>

text \<open>\<^verbatim>\<open>len(x)\<close> and iteration over \<open>x\<close>: defined for lists and strings, \<^verbatim>\<open>TypeError\<close>
  for \<^verbatim>\<open>None\<close> and numbers.\<close>

fun py_len :: "pyval \<Rightarrow> pyerror + nat" where
  "py_len (PList l) = Inr (length l)"
| "py_len (PStr s) = Inr (length s)"
| "py_len v = Inl TypeError"

fun py_iter :: "pyval \<Rightarrow> pyval list" where
  "py_iter (PList l) = l"
| "py_iter (PStr s) = map (\<lambda>c. PStr [c]) s"
| "py_iter v = []"

definition pad_cost :: "nat \<Rightarrow> nat \<Rightarrow> nat \<Rightarrow> real list list \<Rightarrow> real list list" where
  "pad_cost N n m sim =
     fold (\<lambda>i cost. fold (\<lambda>j cost. upd2 cost i j (1 - sim ! i ! j)) [0..<m] cost) [0..<n]
          (replicate N (replicate N 1))"

definition total_sim :: "nat \<Rightarrow> nat \<Rightarrow> real list list \<Rightarrow> (nat \<times> nat) list \<Rightarrow> real" where
  "total_sim n m sim assignment =
     fold (\<lambda>(i, j) t. if i < n \<and> j < m then t + sim ! i ! j else t) assignment 0"

definition similarity_authors_hungarian :: "pyval \<Rightarrow> pyval \<Rightarrow> (pyerror + real) option" where
  "similarity_authors_hungarian lst1 lst2 =
     (case py_len lst1 of
        Inl e \<Rightarrow> Some (Inl e)
      | Inr n \<Rightarrow>
          (case py_len lst2 of
             Inl e \<Rightarrow> Some (Inl e)
           | Inr m \<Rightarrow>
               if n = 0 \<and> m = 0 then Some (Inr 1)
               else if n = 0 \<or> m = 0 then Some (Inr 0)
               else
                 (case sim_matrix (py_iter lst1) (py_iter lst2) of
                    Inl e \<Rightarrow> Some (Inl e)
                  | Inr sim \<Rightarrow>
                      let N = max n m
                      in (case hungarian_min_cost (pad_cost N n m sim) of
                            None \<Rightarrow> None
                          | Some (Inl e) \<Rightarrow> Some (Inl e)
                          | Some (Inr assignment) \<Rightarrow>
                              Some (Inr (total_sim n m sim assignment / real N))))))"

section \<open>The rules of the specification, for comparison\<close>

text \<open>
  The step function of the specification on the absolute difference \<open>d\<close> of two years:
  d=0 gives 1.0; 0<d\<le>5 gives 0.7; 5<d\<le>10 gives 0.5; 10<d\<le>20 gives 0.3; 20<d\<le>50 gives 0.2;
  50<d\<le>100 gives 0.1; d>100 gives 0.05.
\<close>

definition year_step_spec :: "int \<Rightarrow> real" where
  "year_step_spec d =
     (if d = 0 then 1
      else if 0 < d \<and> d \<le> 5 then 7 / 10
      else if 5 < d \<and> d \<le> 10 then 5 / 10
      else if 10 < d \<and> d \<le> 20 then 3 / 10
      else if 20 < d \<and> d \<le> 50 then 2 / 10
      else if 50 < d \<and> d \<le> 100 then 1 / 10
      else 5 / 100)"

definition jaccard :: "'a set \<Rightarrow> 'a set \<Rightarrow> real" where
  "jaccard A B = real (card (A \<inter> B)) / real (card (A \<union> B))"

text \<open>
  The rule pipeline of the specification for one pair of normalized names: 0.0 when a
  token list is empty, 1.0 when the lists are equal, otherwise the maximum of the Jaccard
  index, 0.6 when the lists of first letters are equal and non-empty, 0.8 when the last
  tokens match and the first tokens start with the same letter, and 0.7 when only the
  last tokens match.
\<close>

definition author_rules_spec :: "string list \<Rightarrow> string list \<Rightarrow> real" where
  "author_rules_spec ta tb =
     (if ta = [] \<or> tb = [] then 0
      else if ta = tb then 1
      else Max ({jaccard (set ta) (set tb)}
                \<union> (if map hd ta = map hd tb \<and> map hd ta \<noteq> [] then {6 / 10} else {})
                \<union> (if last ta = last tb \<and> hd (hd ta) = hd (hd tb) then {8 / 10} else {})
                \<union> (if last ta = last tb \<and> hd (hd ta) \<noteq> hd (hd tb) then {7 / 10} else {})))"

section \<open>Year similarity\<close>

text \<open>
  C4, as the code behaves: \<^verbatim>\<open>similarity_years\<close> returns 1 for (2000, 2000), 0.5 for
  (2000, 2006), whose difference 6 lies in the band 5<d\<le>10, 0.05 for (2000, 2150) and 0.0
  for (None, 2000). The value 0.7 belongs to differences 1 to 5, for example (2000, 2005).
\<close>

theorem similarity_years_examples:
  "similarity_years (PNum (NInt 2000)) (PNum (NInt 2000)) = Inr (Some 1)
   \<and> similarity_years (PNum (NInt 2000)) (PNum (NInt 2006)) = Inr (Some (5 / 10))
   \<and> similarity_years (PNum (NInt 2000)) (PNum (NInt 2005)) = Inr (Some (7 / 10))
   \<and> similarity_years (PNum (NInt 2000)) (PNum (NInt 2150)) = Inr (Some (5 / 100))
   \<and> similarity_years PNone (PNum (NInt 2000)) = Inr (Some 0)"
  by (simp add: similarity_years_def year_steps_def Let_def)

text \<open>
  C4 as stated fails: for the years 2000 and 2006 the code does not return 0.7.
\<close>

theorem similarity_years_2006_not_07:
  "similarity_years (PNum (NInt 2000)) (PNum (NInt 2006)) \<noteq> Inr (Some (7 / 10))"
  by (simp add: similarity_years_def year_steps_def Let_def)

text \<open>
  C5: for integer years \<open>y1\<close>, \<open>y2\<close> with \<open>d = \<bar>y1 - y2\<bar>\<close>, \<^verbatim>\<open>similarity_years\<close> returns
  the value of the specification's step function at \<open>d\<close>, and a larger difference never
  gives a larger score.
\<close>

theorem similarity_years_step_function:
  "similarity_years (PNum (NInt y1)) (PNum (NInt y2)) = Inr (Some (year_step_spec \<bar>y1 - y2\<bar>))
   \<and> (\<bar>y1 - y2\<bar> \<le> \<bar>y3 - y4\<bar> \<longrightarrow>
        (\<exists>r r'. similarity_years (PNum (NInt y1)) (PNum (NInt y2)) = Inr (Some r)
               \<and> similarity_years (PNum (NInt y3)) (PNum (NInt y4)) = Inr (Some r')
               \<and> r' \<le> r))"
proof -
  have eq: "similarity_years (PNum (NInt a)) (PNum (NInt b)) = Inr (Some (year_step_spec \<bar>a - b\<bar>))"
    for a b
    by (simp add: similarity_years_def year_steps_def year_step_spec_def Let_def)
  have mono: "year_step_spec d' \<le> year_step_spec d" if "d \<le> d'" "0 \<le> d" for d d'
    using that by (simp add: year_step_spec_def)
  show ?thesis
    using eq mono[of "\<bar>y1 - y2\<bar>" "\<bar>y3 - y4\<bar>"] by simp
qed

theorem similarity_years_step_function_witness:
  "similarity_years (PNum (NInt 2000)) (PNum (NInt 2007)) = Inr (Some (5 / 10))
   \<and> \<bar>2000 - 2007 :: int\<bar> \<le> \<bar>1990 - 2020\<bar>
   \<and> (\<exists>r r'. similarity_years (PNum (NInt 2000)) (PNum (NInt 2007)) = Inr (Some r)
               \<and> similarity_years (PNum (NInt 1990)) (PNum (NInt 2020)) = Inr (Some r')
               \<and> r' \<le> r)"
proof -
  have h: "\<bar>2000 - 2007 :: int\<bar> \<le> \<bar>1990 - 2020\<bar>"
    by simp
  have "similarity_years (PNum (NInt 2000)) (PNum (NInt 2007)) = Inr (Some (5 / 10))"
    using similarity_years_step_function[of 2000 2007 1990 2020]
    by (simp add: year_step_spec_def)
  moreover have "\<exists>r r'. similarity_years (PNum (NInt 2000)) (PNum (NInt 2007)) = Inr (Some r)
               \<and> similarity_years (PNum (NInt 1990)) (PNum (NInt 2020)) = Inr (Some r')
               \<and> r' \<le> r"
    using similarity_years_step_function[of 2000 2007 1990 2020] h by blast
  ultimately show ?thesis
    using h by blast
qed

text \<open>
  C9 fails on the code: a float infinity passes the \<^verbatim>\<open>isinstance\<close> test, \<^verbatim>\<open>int\<close>
  raises \<^verbatim>\<open>OverflowError\<close> on it, and the handler catches only \<^verbatim>\<open>ValueError\<close> and
  \<^verbatim>\<open>TypeError\<close>, so the call raises instead of returning 0.0.
\<close>

theorem similarity_years_overflow:
  "similarity_years (PNum (NFloat PInf)) (PNum (NInt 2000)) = Inl OverflowError"
  by (simp add: similarity_years_def caught_def)

section \<open>Title similarity\<close>

text \<open>
  C8: \<^verbatim>\<open>similarity_titles\<close> is symmetric for every pair of values, strings or not.
\<close>

theorem similarity_titles_symmetric:
  "similarity_titles a b = similarity_titles b a"
  by (auto simp: similarity_titles_def Let_def Int_commute Un_commute)

theorem similarity_titles_symmetric_witness:
  "similarity_titles (PStr ''Deep learning'') PNone = similarity_titles PNone (PStr ''Deep learning'')"
  using similarity_titles_symmetric[of "PStr ''Deep learning''" PNone] by simp

section \<open>Author-pair similarity\<close>

lemma normalize_author_nonempty: "t \<in> set (normalize_author a) \<Longrightarrow> t \<noteq> []"
  by (auto simp: normalize_author_def split: pyval.splits)

lemma initials_normalize: "initials (normalize_author a) = map hd (normalize_author a)"
  unfolding initials_def
  by (rule arg_cong[where f="map hd"]) (simp add: filter_id_conv normalize_author_nonempty)

lemma jaccard_range: "0 \<le> jaccard (set xs) (set ys) \<and> jaccard (set xs) (set ys) \<le> 1"
proof (cases "card (set xs \<union> set ys) = 0")
  case True
  then show ?thesis by (simp add: jaccard_def)
next
  case False
  have "card (set xs \<inter> set ys) \<le> card (set xs \<union> set ys)"
    by (rule card_mono) auto
  then have "real (card (set xs \<inter> set ys)) \<le> real (card (set xs \<union> set ys))"
    by simp
  moreover have "0 < real (card (set xs \<union> set ys))"
    using False by linarith
  ultimately show ?thesis unfolding jaccard_def
    by (simp only: divide_le_eq_1_pos divide_nonneg_nonneg of_nat_0_le_iff simp_thms)
qed

lemma rules_max:
  fixes J :: real
  shows "Max ({J} \<union> (if c1 then {6 / 10} else {}) \<union> (if c2 \<and> c3 then {8 / 10} else {})
              \<union> (if c2 \<and> \<not> c3 then {7 / 10} else {}))
         = (let b1 = (if c1 then max J (6 / 10) else J)
            in if c2 then (if c3 then max b1 (8 / 10) else max b1 (7 / 10)) else b1)"
  by (cases c1; cases c2; cases c3) (simp_all add: Let_def max_def)

lemma author_similarity_total:
  "\<exists>r. author_similarity a b = Inr r \<and> 0 \<le> r \<and> r \<le> 1"
proof -
  let ?ta = "normalize_author a" and ?tb = "normalize_author b"
  define J where "J = real (card (set ?ta \<inter> set ?tb)) / real (card (set ?ta \<union> set ?tb))"
  have ne: "?ta \<noteq> [] \<Longrightarrow> hd ?ta \<noteq> []" "?tb \<noteq> [] \<Longrightarrow> hd ?tb \<noteq> []"
    using normalize_author_nonempty[of "hd ?ta" a] normalize_author_nonempty[of "hd ?tb" b]
    by auto
  have j: "0 \<le> J" "J \<le> 1"
    using jaccard_range[of ?ta ?tb] by (auto simp: J_def jaccard_def)
  show ?thesis
    using ne j by (auto simp: author_similarity_def Let_def J_def[symmetric])
qed

text \<open>
  C6: \<^verbatim>\<open>author_similarity\<close> returns what the rule pipeline of the specification gives on
  the two normalized token lists, it never raises, and the score lies between 0 and 1.
\<close>

theorem author_similarity_rules:
  "author_similarity a b = Inr (author_rules_spec (normalize_author a) (normalize_author b))
   \<and> 0 \<le> author_rules_spec (normalize_author a) (normalize_author b)
   \<and> author_rules_spec (normalize_author a) (normalize_author b) \<le> 1"
proof -
  let ?ta = "normalize_author a" and ?tb = "normalize_author b"
  define J where "J = jaccard (set ?ta) (set ?tb)"
  have ne: "?ta \<noteq> [] \<Longrightarrow> hd ?ta \<noteq> []" "?tb \<noteq> [] \<Longrightarrow> hd ?tb \<noteq> []"
    using normalize_author_nonempty[of "hd ?ta" a] normalize_author_nonempty[of "hd ?tb" b]
    by auto
  have j: "0 \<le> J" "J \<le> 1"
    using jaccard_range[of ?ta ?tb] by (auto simp: J_def)
  have u: "?ta \<noteq> [] \<Longrightarrow> card (set ?ta \<union> set ?tb) \<noteq> 0"
    by simp
  have J': "real (card (set ?ta \<inter> set ?tb)) / real (card (set ?ta \<union> set ?tb)) = J"
    by (simp add: J_def jaccard_def)
  have 1: "author_similarity a b = Inr (author_rules_spec ?ta ?tb)"
    using ne u
    by (auto simp: author_similarity_def author_rules_spec_def J_def[symmetric] rules_max
        initials_normalize Let_def J')
  have 2: "0 \<le> author_rules_spec ?ta ?tb \<and> author_rules_spec ?ta ?tb \<le> 1"
    unfolding author_rules_spec_def J_def[symmetric] rules_max
    using j by (auto simp: Let_def)
  show ?thesis
    using 1 2 by simp
qed

theorem author_similarity_rules_witness:
  "author_similarity (PStr ''Prof. John Smith'') (PStr ''J. Smith'')
     = Inr (author_rules_spec (normalize_author (PStr ''Prof. John Smith''))
                              (normalize_author (PStr ''J. Smith'')))
   \<and> 0 \<le> author_rules_spec (normalize_author (PStr ''Prof. John Smith''))
                             (normalize_author (PStr ''J. Smith''))"
  using author_similarity_rules[of "PStr ''Prof. John Smith''" "PStr ''J. Smith''"] by simp

text \<open>
  C10: \<^verbatim>\<open>author_similarity\<close> is symmetric for every pair of values.
\<close>

theorem author_similarity_symmetric:
  "author_similarity a b = author_similarity b a"
  by (auto simp: author_similarity_def Let_def Int_commute Un_commute)

theorem author_similarity_symmetric_witness:
  "author_similarity (PStr ''Mario Rossi'') (PStr ''Rossi, M.'')
     = author_similarity (PStr ''Rossi, M.'') (PStr ''Mario Rossi'')"
  using author_similarity_symmetric[of "PStr ''Mario Rossi''" "PStr ''Rossi, M.''"] by simp

section \<open>Author-list similarity on degenerate input\<close>

text \<open>
  C3 fails on the code: \<^verbatim>\<open>similarity_authors_hungarian\<close> starts with \<^verbatim>\<open>len(lst1)\<close>, which
  raises \<^verbatim>\<open>TypeError\<close> on \<^verbatim>\<open>None\<close>, where the greedy \<^verbatim>\<open>similarity_authors\<close> tests its
  arguments first and returns 0.0.
\<close>

theorem similarity_authors_hungarian_none:
  "similarity_authors_hungarian PNone (PList []) = Some (Inl TypeError)
   \<and> similarity_authors PNone (PList []) = Inr 0"
  by (simp add: similarity_authors_hungarian_def similarity_authors_def)

end
